theory Spec2Isabelle
  imports Main "HOL-Library.Monad_Syntax" "HOL-Library.AList"
begin

section \<open>JavaScript values\<close>

text \<open>
  The payloads that cross the middleware of \<^verbatim>\<open>src/client/src/state/api.ts\<close> are typed
  \<^verbatim>\<open>unknown\<close>: whatever JSON the server sent. They are modelled as a datatype of
  JavaScript values. An object is the list of its own properties in insertion order (no
  key twice). A number is kept as the text that \<^verbatim>\<open>Number.prototype.toString\<close> gives
  for it: 500 is \<open>JNum ''500''\<close>, one half is \<open>JNum ''0.5''\<close>, \<^verbatim>\<open>1e21\<close> is
  \<open>JNum ''1e+21''\<close>. That text fixes the number up to the sign of zero, and the
  middleware does nothing with a number but test it for truthiness, print it and pass it
  on, so that the model covers every number, fractional and large ones too, without a
  printing algorithm of its own.
\<close>

datatype jsval =
    JUndefined
  | JNull
  | JBool bool
  | JNum string
  | JStr string
  | JArr "jsval list"
  | JObj "(string \<times> jsval) list"

type_synonym obj = "(string \<times> jsval) list"

text \<open>ToBoolean: what \<^verbatim>\<open>if (v)\<close>, \<^verbatim>\<open>v && w\<close> and \<^verbatim>\<open>v || w\<close> test. The falsy
  numbers are \<^verbatim>\<open>0\<close>, \<^verbatim>\<open>-0\<close> (both printed \<^verbatim>\<open>0\<close>) and \<^verbatim>\<open>NaN\<close>.\<close>

fun truthy :: "jsval \<Rightarrow> bool" where
  "truthy JUndefined = False"
| "truthy JNull = False"
| "truthy (JBool b) = b"
| "truthy (JNum n) = (n \<noteq> ''0'' \<and> n \<noteq> ''NaN'')"
| "truthy (JStr s) = (s \<noteq> [])"
| "truthy (JArr xs) = True"
| "truthy (JObj kvs) = True"

fun nullish :: "jsval \<Rightarrow> bool" where
  "nullish JUndefined = True"
| "nullish JNull = True"
| "nullish v = False"

text \<open>\<^verbatim>\<open>a || b\<close> and \<^verbatim>\<open>a ?? b\<close>.\<close>

definition js_or :: "jsval \<Rightarrow> jsval \<Rightarrow> jsval" where
  "js_or a b = (if truthy a then a else b)"

definition js_coalesce :: "jsval \<Rightarrow> jsval \<Rightarrow> jsval" where
  "js_coalesce a b = (if nullish a then b else a)"

text \<open>\<^verbatim>\<open>k in o\<close> and \<^verbatim>\<open>o.k\<close> on an object given by its property list.\<close>

definition has_key :: "string \<Rightarrow> obj \<Rightarrow> bool" where
  "has_key k kvs = (map_of kvs k \<noteq> None)"

definition field :: "obj \<Rightarrow> string \<Rightarrow> jsval" where
  "field kvs k = (case map_of kvs k of None \<Rightarrow> JUndefined | Some v \<Rightarrow> v)"

text \<open>
  \<^verbatim>\<open>v.k\<close> on any value, for the property names the source reads (\<^verbatim>\<open>data\<close>,
  \<^verbatim>\<open>message\<close>, \<^verbatim>\<open>status\<close>), none of which a primitive or an array has of its own:
  reading a property of \<^verbatim>\<open>undefined\<close> or \<^verbatim>\<open>null\<close> throws a TypeError, which is the
  result \<open>None\<close>; a primitive or an array gives \<^verbatim>\<open>undefined\<close>.
  \<^verbatim>\<open>v?.k\<close> gives \<^verbatim>\<open>undefined\<close> instead of throwing.
\<close>

fun read_prop :: "jsval \<Rightarrow> string \<Rightarrow> jsval option" where
  "read_prop JUndefined k = None"
| "read_prop JNull k = None"
| "read_prop (JObj kvs) k = Some (field kvs k)"
| "read_prop v k = Some JUndefined"

definition opt_read :: "jsval \<Rightarrow> string \<Rightarrow> jsval option" where
  "opt_read v k = (if nullish v then Some JUndefined else read_prop v k)"

text \<open>\<^verbatim>\<open>{...o, k: v}\<close>: the properties of \<open>o\<close> in their order, \<open>k\<close> overwritten in place
  or added last.\<close>

definition spread_with :: "obj \<Rightarrow> string \<Rightarrow> jsval \<Rightarrow> obj" where
  "spread_with kvs k v = AList.update k v kvs"

subsection \<open>ToString\<close>

text \<open>
  What a template literal \<^verbatim>\<open>`${v}`\<close> and \<^verbatim>\<open>v.toString()\<close> give on a JSON value, or
  \<open>None\<close> where they throw a TypeError. A number gives its text. A plain object gives
  \<^verbatim>\<open>[object Object]\<close> through the \<^verbatim>\<open>toString\<close> of \<^verbatim>\<open>Object.prototype\<close>, unless it has
  a property \<^verbatim>\<open>toString\<close> of its own: a JSON value is not callable, so the method call
  throws, and the conversion finds no method that gives a primitive and throws as well.
  An array joins its elements with commas, \<^verbatim>\<open>null\<close> and \<^verbatim>\<open>undefined\<close> elements as
  the empty string and the others converted in turn, and throws where one of them does.
\<close>

fun js_to_string :: "jsval \<Rightarrow> string option"
  and js_join :: "jsval list \<Rightarrow> string option" where
  "js_to_string JUndefined = Some ''undefined''"
| "js_to_string JNull = Some ''null''"
| "js_to_string (JBool b) = Some (if b then ''true'' else ''false'')"
| "js_to_string (JNum n) = Some n"
| "js_to_string (JStr s) = Some s"
| "js_to_string (JArr xs) = js_join xs"
| "js_to_string (JObj kvs) = (if has_key ''toString'' kvs then None else Some ''[object Object]'')"
| "js_join [] = Some []"
| "js_join [x] = (if nullish x then Some [] else js_to_string x)"
| "js_join (x # y # ys) =
     (case (if nullish x then Some [] else js_to_string x) of
        None \<Rightarrow> None
      | Some a \<Rightarrow> (case js_join (y # ys) of None \<Rightarrow> None | Some b \<Rightarrow> Some (a @ '','' @ b)))"

text \<open>\<^verbatim>\<open>v?.toString()\<close>: \<^verbatim>\<open>undefined\<close> on \<^verbatim>\<open>undefined\<close> and \<^verbatim>\<open>null\<close>.\<close>

definition opt_toString :: "jsval \<Rightarrow> jsval option" where
  "opt_toString v = (if nullish v then Some JUndefined else map_option JStr (js_to_string v))"

section \<open>Request descriptors\<close>

text \<open>
  The argument of the base query is \<^verbatim>\<open>string | FetchArgs\<close>: a bare URL, or a descriptor
  with a URL and optional method, body and query parameters.
\<close>

record fetch_args =
  url :: string  "method" :: "string option"
  body :: "jsval option"  params :: "obj option"

datatype query_args = Url string | Fetch fetch_args

text \<open>\<^verbatim>\<open>(args as FetchArgs).method\<close>: \<^verbatim>\<open>undefined\<close> on a string and on a descriptor
  without a method.\<close>

fun args_method :: "query_args \<Rightarrow> jsval" where
  "args_method (Url s) = JUndefined"
| "args_method (Fetch fa) = (case method fa of None \<Rightarrow> JUndefined | Some m \<Rightarrow> JStr m)"

section \<open>The response middleware\<close>

text \<open>
  The notifications the middleware emits, in order: \<^verbatim>\<open>toast.error(text)\<close> with the text
  built by the template literal, \<^verbatim>\<open>toast.success(v)\<close> with the payload's message as it
  is.
\<close>

datatype toast = ToastError string | ToastSuccess jsval

text \<open>The test of the error branch: \<^verbatim>\<open>"error" in result && result.error\<close>.\<close>

definition is_error :: "obj \<Rightarrow> bool" where
  "is_error result = (has_key ''error'' result \<and> truthy (field result ''error''))"

text \<open>
  \<^verbatim>\<open>customBaseQuery\<close> (lines 43 to 73) after
  \<^verbatim>\<open>await rawBaseQuery(args, api, extraOptions)\<close>: the transport's result is the argument
  \<open>result\<close>. The value is the returned result with the notifications emitted, or
  \<open>None\<close> if the function throws a TypeError instead of returning: at a property read
  of \<^verbatim>\<open>undefined\<close> or \<^verbatim>\<open>null\<close>, at \<^verbatim>\<open>status?.toString()\<close> (line 50) or at the
  template literal (line 51), which comes before the notification and the return. The
  three parts of its body are three definitions: the error branch (lines 47 to 53), the
  success notification (lines 56 to 65) and the envelope unwrap (lines 68 to 72).
\<close>

definition handle_error :: "obj \<Rightarrow> (obj \<times> toast list) option" where
  "handle_error result =
     do {
       d \<leftarrow> read_prop (field result ''error'') ''data'';
       let errorData = js_coalesce d (JObj []);
       m \<leftarrow> read_prop errorData ''message'';
       errorMessage \<leftarrow>
         (if truthy m then Some m
          else do {
            st \<leftarrow> read_prop (field result ''error'') ''status'';
            s \<leftarrow> opt_toString st;
            Some (js_or s (JStr ''An error occurred''))
          });
       text \<leftarrow> js_to_string errorMessage;
       Some (result, [ToastError (''Error: '' @ text)])
     }"

definition success_toasts :: "query_args \<Rightarrow> obj \<Rightarrow> toast list option" where
  "success_toasts args result =
     (if has_key ''data'' result \<and> truthy (args_method args) \<and> args_method args \<noteq> JStr ''GET''
      then do {
        let successData = field result ''data'';
        m \<leftarrow> opt_read successData ''message'';
        Some (if truthy m then [ToastSuccess m] else [])
      }
      else Some [])"

definition normalize :: "obj \<Rightarrow> obj option" where
  "normalize result =
     (if has_key ''data'' result \<and> truthy (field result ''data'')
      then do {
        inner \<leftarrow> read_prop (field result ''data'') ''data'';
        Some (if truthy inner then spread_with result ''data'' inner else result)
      }
      else Some result)"

definition customBaseQuery :: "query_args \<Rightarrow> obj \<Rightarrow> (obj \<times> toast list) option" where
  "customBaseQuery args result =
     (if is_error result then handle_error result
      else do {
        ts \<leftarrow> success_toasts args result;
        r \<leftarrow> normalize result;
        Some (r, ts)
      })"

text \<open>
  A total reading of \<^verbatim>\<open>v.k\<close>, to state what the middleware computes: the property
  of an object, \<^verbatim>\<open>undefined\<close> on anything else.
\<close>

definition member :: "jsval \<Rightarrow> string \<Rightarrow> jsval" where
  "member v k = (case v of JObj kvs \<Rightarrow> field kvs k | _ \<Rightarrow> JUndefined)"

section \<open>The base URL\<close>

text \<open>
  \<^verbatim>\<open>API_BASE_URL\<close> (lines 23 to 27). Its two inputs are the environment variable
  \<^verbatim>\<open>process.env.NEXT_PUBLIC_API_BASE_URL\<close> (a string or \<^verbatim>\<open>undefined\<close>) and
  \<^verbatim>\<open>window.location\<close> when \<^verbatim>\<open>typeof window !== "undefined"\<close>.
\<close>

record window_location =
  protocol :: string
  hostname :: string
  port :: string

definition API_BASE_URL :: "string option \<Rightarrow> window_location option \<Rightarrow> string" where
  "API_BASE_URL env window =
     (case env of
        Some v \<Rightarrow> v
      | None \<Rightarrow>
          (case window of
             Some loc \<Rightarrow> protocol loc @ ''//'' @ hostname loc @ '':8001''
           | None \<Rightarrow> ''http://localhost:8001''))"

section \<open>The endpoint registry\<close>

text \<open>
  A tag is a type name (\<^verbatim>\<open>"Courses"\<close>) or a type name with an id
  (\<^verbatim>\<open>{ type: "Courses", id }\<close>). An endpoint is a query or a mutation, with the function
  that builds its request from the call's argument and the tags it provides and
  invalidates (none where the source declares none).
\<close>

datatype tag = Tag string | TagId string string

datatype endpoint_kind = Query | Mutation

record 'a endpoint =
  kind :: endpoint_kind
  query :: "'a \<Rightarrow> query_args"
  providesTags :: "'a \<Rightarrow> tag list"
  invalidatesTags :: "'a \<Rightarrow> tag list"



definition getCourse :: "string endpoint" where
  "getCourse =
     \<lparr>kind = Query,
      query = (\<lambda>id. Url (''courses/'' @ id)),
      providesTags = (\<lambda>id. [TagId ''Courses'' id]),
      invalidatesTags = (\<lambda>_. [])\<rparr>"



definition deleteCourse :: "string endpoint" where
  "deleteCourse =
     \<lparr>kind = Mutation,
      query = (\<lambda>courseId.
        Fetch \<lparr>url = ''courses/'' @ courseId, method = Some ''DELETE'',
               body = None, params = None\<rparr>),
      providesTags = (\<lambda>_. []),
      invalidatesTags = (\<lambda>_. [Tag ''Courses''])\<rparr>"



text \<open>\<^verbatim>\<open>createStripePaymentIntent\<close>: the argument is \<^verbatim>\<open>{ amount }\<close>.\<close>

definition createStripePaymentIntent :: "jsval endpoint" where
  "createStripePaymentIntent =
     \<lparr>kind = Mutation,
      query = (\<lambda>amount.
        Fetch \<lparr>url = ''/transactions/stripe/payment-intent'', method = Some ''POST'',
               body = Some (JObj [(''amount'', amount)]), params = None\<rparr>),
      providesTags = (\<lambda>_. []),
      invalidatesTags = (\<lambda>_. [])\<rparr>"




text \<open>\<^verbatim>\<open>updateUserCourseProgress\<close>: the argument is
  \<^verbatim>\<open>{ userId, courseId, progressData }\<close>, with \<^verbatim>\<open>progressData\<close> the object
  \<^verbatim>\<open>{ sections }\<close>.\<close>

definition updateUserCourseProgress :: "(string \<times> string \<times> obj) endpoint" where
  "updateUserCourseProgress =
     \<lparr>kind = Mutation,
      query = (\<lambda>(userId, courseId, progressData).
        Fetch \<lparr>url = ''users/course-progress/'' @ userId @ ''/courses/'' @ courseId,
               method = Some ''PUT'', body = Some (JObj progressData), params = None\<rparr>),
      providesTags = (\<lambda>_. []),
      invalidatesTags = (\<lambda>_. [Tag ''UserCourseProgress''])\<rparr>"

text \<open>The URL a request is built with: the string itself, or the descriptor's \<^verbatim>\<open>url\<close>.\<close>

fun request_url :: "query_args \<Rightarrow> string" where
  "request_url (Url s) = s"
| "request_url (Fetch fa) = url fa"





section \<open>The optimistic update of the course progress\<close>

text \<open>
  The cache holds, for an endpoint name and the argument of a call, the last value
  delivered for it; the values of \<^verbatim>\<open>getUserCourseProgress\<close> are objects. A missing key
  is a query that was never fetched.
\<close>

type_synonym cache_key = "string \<times> jsval"

type_synonym cache = "cache_key \<rightharpoonup> obj"

text \<open>
  The handle a patch returns: nothing when no entry was patched, or the patched key with
  the value the entry had before.
\<close>

type_synonym patch_result = "(cache_key \<times> obj) option"

text \<open>
  Modelled from the spec: \<^verbatim>\<open>api.util.updateQueryData\<close>, dispatched, and the
  \<^verbatim>\<open>undo\<close> of its result are the query library's and are not in the repository. By
  the spec's sections 4.4 and 9 the patch applies the recipe to the cached entry of the
  key at once and keeps the prior value with its handle; with no entry for the key it is
  a no-op; \<^verbatim>\<open>undo\<close> restores the prior value of that entry.
\<close>

definition updateQueryData ::
  "string \<Rightarrow> jsval \<Rightarrow> (obj \<Rightarrow> obj) \<Rightarrow> cache \<Rightarrow> cache \<times> patch_result" where
  "updateQueryData endpointName arg recipe c =
     (case c (endpointName, arg) of
        None \<Rightarrow> (c, None)
      | Some v \<Rightarrow> (c((endpointName, arg) \<mapsto> recipe v), Some ((endpointName, arg), v)))"

definition undo :: "patch_result \<Rightarrow> cache \<Rightarrow> cache" where
  "undo patchResult c = (case patchResult of None \<Rightarrow> c | Some (k, v) \<Rightarrow> c(k \<mapsto> v))"

text \<open>\<^verbatim>\<open>Object.assign(target, source)\<close>: the properties of the source are written to the
  target one after the other; the value is the target afterwards.\<close>

definition object_assign :: "obj \<Rightarrow> obj \<Rightarrow> obj" where
  "object_assign target source = foldl (\<lambda>t (k, v). AList.update k v t) target source"

text \<open>The recipe of line 198:
  \<^verbatim>\<open>Object.assign(draft, { ...draft, sections: progressData.sections })\<close>.\<close>

definition progress_recipe :: "obj \<Rightarrow> obj \<Rightarrow> obj" where
  "progress_recipe progressData draft =
     object_assign draft (spread_with draft ''sections'' (field progressData ''sections''))"

text \<open>
  \<^verbatim>\<open>onQueryStarted\<close> (lines 189 to 207) runs in two steps around its one
  \<^verbatim>\<open>await\<close>: the patch, when the mutation starts, and what follows once
  \<^verbatim>\<open>queryFulfilled\<close> has resolved (the request succeeded) or rejected (it failed).
\<close>

datatype settled = Fulfilled | Rejected

definition onQueryStarted_patch :: "string \<times> string \<times> obj \<Rightarrow> cache \<Rightarrow> cache \<times> patch_result" where
  "onQueryStarted_patch = (\<lambda>(userId, courseId, progressData) c.
     updateQueryData ''getUserCourseProgress''
       (JObj [(''userId'', JStr userId), (''courseId'', JStr courseId)])
       (progress_recipe progressData) c)"

definition onQueryStarted_settle :: "settled \<Rightarrow> patch_result \<Rightarrow> cache \<Rightarrow> cache" where
  "onQueryStarted_settle outcome patchResult c =
     (case outcome of Fulfilled \<Rightarrow> c | Rejected \<Rightarrow> undo patchResult c)"

definition onQueryStarted :: "string \<times> string \<times> obj \<Rightarrow> settled \<Rightarrow> cache \<Rightarrow> cache" where
  "onQueryStarted arg outcome c =
     (let (c1, patchResult) = onQueryStarted_patch arg c
      in onQueryStarted_settle outcome patchResult c1)"

text \<open>The key of the cached \<^verbatim>\<open>getUserCourseProgress\<close> entry of a user and a course.\<close>

definition progress_key :: "string \<Rightarrow> string \<Rightarrow> cache_key" where
  "progress_key userId courseId =
     (''getUserCourseProgress'', JObj [(''userId'', JStr userId), (''courseId'', JStr courseId)])"

section \<open>Facts about the values\<close>

lemma truthy_not_nullish: "truthy v \<Longrightarrow> \<not> nullish v"
  by (cases v) simp_all

lemma read_prop_member: "\<not> nullish v \<Longrightarrow> read_prop v k = Some (member v k)"
  by (cases v) (simp_all add: member_def)

lemma opt_read_member: "opt_read v k = Some (member v k)"
  by (cases v) (simp_all add: opt_read_def member_def)

lemma member_coalesce: "member (js_coalesce d (JObj [])) k = member d k"
  by (cases d) (simp_all add: js_coalesce_def member_def field_def)

lemma coalesce_not_nullish: "\<not> nullish (js_coalesce d (JObj []))"
  by (cases d) (simp_all add: js_coalesce_def)

lemma member_falsy: "\<not> truthy v \<Longrightarrow> member v k = JUndefined"
  by (cases v) (simp_all add: member_def)

lemma field_spread_same: "field (spread_with kvs k v) k = v"
  by (simp add: field_def spread_with_def update_conv')

lemma map_of_spread_other: "k' \<noteq> k \<Longrightarrow> map_of (spread_with kvs k v) k' = map_of kvs k'"
  by (simp add: spread_with_def update_conv')

lemma keys_spread_present: "has_key k kvs \<Longrightarrow> map fst (spread_with kvs k v) = map fst kvs"
  by (auto simp: spread_with_def has_key_def update_keys map_of_eq_None_iff)

lemma js_to_string_primitive:
  "(\<forall>xs. v \<noteq> JArr xs) \<Longrightarrow> (\<forall>kvs. v \<noteq> JObj kvs) \<Longrightarrow> \<exists>t. js_to_string v = Some t"
  by (cases v) simp_all

section \<open>The middleware, branch by branch\<close>

text \<open>
  What each part of the middleware returns is read off the transport's result with
  \<open>member\<close>. No property read throws. The error branch throws where the chosen message
  does not convert to a string, and only there; the two parts of the success path always
  return.
\<close>

lemma handle_error_eq:
  assumes "is_error result"
    and "m = member (member (field result ''error'') ''data'') ''message''"
    and "st = member (field result ''error'') ''status''"
  shows "handle_error result =
    (if truthy m
     then (case js_to_string m of
             None \<Rightarrow> None
           | Some t \<Rightarrow> Some (result, [ToastError (''Error: '' @ t)]))
     else if nullish st then Some (result, [ToastError ''Error: An error occurred''])
     else (case js_to_string st of
             None \<Rightarrow> None
           | Some t \<Rightarrow> Some (result, [ToastError (''Error: '' @
                         (if t \<noteq> [] then t else ''An error occurred''))])))"
proof -
  from assms(1) have ne: "\<not> nullish (field result ''error'')"
    by (simp add: is_error_def truthy_not_nullish)
  show ?thesis
    unfolding handle_error_def assms(2,3)
    by (simp add: read_prop_member [OF ne] read_prop_member [OF coalesce_not_nullish]
        member_coalesce Let_def js_or_def opt_toString_def split: option.splits)
qed

lemma success_toasts_eq:
  "success_toasts args result =
     Some (if has_key ''data'' result \<and> truthy (args_method args)
              \<and> args_method args \<noteq> JStr ''GET''
              \<and> truthy (member (field result ''data'') ''message'')
           then [ToastSuccess (member (field result ''data'') ''message'')] else [])"
  by (simp add: success_toasts_def opt_read_member)

lemma normalize_eq:
  "normalize result =
     Some (if has_key ''data'' result \<and> truthy (member (field result ''data'') ''data'')
           then spread_with result ''data'' (member (field result ''data'') ''data'')
           else result)"
proof (cases "truthy (field result ''data'')")
  case True
  then show ?thesis
    by (simp add: normalize_def read_prop_member [OF truthy_not_nullish])
next
  case False
  then show ?thesis
    by (simp add: normalize_def member_falsy)
qed

lemma customBaseQuery_success:
  "\<not> is_error result \<Longrightarrow>
   customBaseQuery args result =
     Some (if has_key ''data'' result \<and> truthy (member (field result ''data'') ''data'')
           then spread_with result ''data'' (member (field result ''data'') ''data'')
           else result,
           if has_key ''data'' result \<and> truthy (args_method args)
              \<and> args_method args \<noteq> JStr ''GET''
              \<and> truthy (member (field result ''data'') ''message'')
           then [ToastSuccess (member (field result ''data'') ''message'')] else [])"
  by (simp add: customBaseQuery_def success_toasts_eq normalize_eq)

section \<open>The error path\<close>

text \<open>
  Claim C5. For every error result the middleware returns the error result unchanged to
  the caller: the error shape is not altered, no envelope is unwrapped and no success
  notification is emitted. This holds of every error result for which the text of the
  error notification can be built, as it can whenever the chosen message is a string, a
  number or a boolean: the returned value is the transport's result itself and the only
  notification is one error notification. The witness is an error result that also
  carries a wrapped payload with a message, for a POST.
\<close>

theorem error_result_returned_unchanged:
  assumes "is_error result"
    and "m = member (member (field result ''error'') ''data'') ''message''"
    and "st = member (field result ''error'') ''status''"
    and "truthy m \<longrightarrow> js_to_string m \<noteq> None"
    and "\<not> truthy m \<longrightarrow> \<not> nullish st \<longrightarrow> js_to_string st \<noteq> None"
  shows "\<exists>text. customBaseQuery args result = Some (result, [ToastError text])"
  using assms(1,4,5) by (auto simp: customBaseQuery_def handle_error_eq [OF assms(1-3)])

theorem error_result_returned_unchanged_witness:
  "is_error [(''error'', JObj [(''status'', JStr ''FETCH_ERROR'')]),
             (''data'', JObj [(''data'', JStr ''x''), (''message'', JStr ''saved'')])]
   \<and> js_to_string (JStr ''FETCH_ERROR'') \<noteq> None
   \<and> (\<exists>text.
        customBaseQuery
          (Fetch \<lparr>url = ''courses'', method = Some ''POST'', body = None, params = None\<rparr>)
          [(''error'', JObj [(''status'', JStr ''FETCH_ERROR'')]),
           (''data'', JObj [(''data'', JStr ''x''), (''message'', JStr ''saved'')])]
        = Some ([(''error'', JObj [(''status'', JStr ''FETCH_ERROR'')]),
                 (''data'', JObj [(''data'', JStr ''x''), (''message'', JStr ''saved'')])],
                [ToastError text]))"
proof -
  let ?R = "[(''error'', JObj [(''status'', JStr ''FETCH_ERROR'')]),
             (''data'', JObj [(''data'', JStr ''x''), (''message'', JStr ''saved'')])]"
  have h: "is_error ?R"
    by (simp add: is_error_def has_key_def field_def)
  have h4: "truthy (member (member (field ?R ''error'') ''data'') ''message'')
              \<longrightarrow> js_to_string (member (member (field ?R ''error'') ''data'') ''message'') \<noteq> None"
    by (simp add: member_def field_def)
  have h5: "\<not> truthy (member (member (field ?R ''error'') ''data'') ''message'')
              \<longrightarrow> \<not> nullish (member (field ?R ''error'') ''status'')
              \<longrightarrow> js_to_string (member (field ?R ''error'') ''status'') \<noteq> None"
    by (simp add: member_def field_def)
  show ?thesis
    using h error_result_returned_unchanged [OF h refl refl h4 h5] by simp
qed

text \<open>
  The claim as stated fails where the text cannot be built: for the error
  \<^verbatim>\<open>{ status: 500, data: { message: { toString: 1 } } }\<close> the template literal of line
  51 throws, and the middleware returns nothing.
\<close>

theorem unprintable_message_nothing_returned:
  "is_error [(''error'', JObj [(''status'', JNum ''500''),
              (''data'', JObj [(''message'', JObj [(''toString'', JNum ''1'')])])]),
             (''meta'', JObj [])]
   \<and> customBaseQuery (Url ''courses/c1'')
        [(''error'', JObj [(''status'', JNum ''500''),
          (''data'', JObj [(''message'', JObj [(''toString'', JNum ''1'')])])]),
         (''meta'', JObj [])]
     = None"
  by (simp add: customBaseQuery_def handle_error_def is_error_def has_key_def field_def
      js_coalesce_def)

text \<open>
  Claim C2. For every error result exactly one error notification is emitted, and its
  message is chosen by precedence: the server's \<^verbatim>\<open>message\<close>, else the status converted
  to a string, else the generic fallback. The source chooses with \<^verbatim>\<open>||\<close>, so each
  candidate counts only when it is truthy: the message is used when it is present and not
  empty (nor \<^verbatim>\<open>null\<close>, \<^verbatim>\<open>false\<close>, \<^verbatim>\<open>0\<close>); otherwise the status converted to a
  string when it is present and that string is not empty; otherwise
  \<^verbatim>\<open>An error occurred\<close>. Where the chosen message converts to a string \<open>t\<close>, exactly
  one notification is emitted, with the text \<^verbatim>\<open>Error: \<close> followed by \<open>t\<close>, and the
  result is returned as it came. The three parts of the statement are the three
  candidates in their order.
\<close>

theorem error_notification_precedence:
  assumes "is_error result"
    and "m = member (member (field result ''error'') ''data'') ''message''"
    and "st = member (field result ''error'') ''status''"
  shows "(truthy m \<longrightarrow> js_to_string m = Some t \<longrightarrow>
            customBaseQuery args result = Some (result, [ToastError (''Error: '' @ t)]))
       \<and> (\<not> truthy m \<longrightarrow> \<not> nullish st \<longrightarrow> js_to_string st = Some t \<longrightarrow> t \<noteq> [] \<longrightarrow>
            customBaseQuery args result = Some (result, [ToastError (''Error: '' @ t)]))
       \<and> (\<not> truthy m \<longrightarrow> nullish st \<or> js_to_string st = Some [] \<longrightarrow>
            customBaseQuery args result
              = Some (result, [ToastError ''Error: An error occurred'']))"
  using assms(1) by (auto simp: customBaseQuery_def handle_error_eq [OF assms])

theorem error_notification_precedence_witness:
  "is_error [(''error'', JObj [(''status'', JNum ''500''),
                               (''data'', JObj [(''message'', JStr ''Course not found'')])]),
             (''meta'', JObj [])]
   \<and> customBaseQuery (Url ''courses/c1'')
        [(''error'', JObj [(''status'', JNum ''500''),
                           (''data'', JObj [(''message'', JStr ''Course not found'')])]),
         (''meta'', JObj [])]
     = Some ([(''error'', JObj [(''status'', JNum ''500''),
                                (''data'', JObj [(''message'', JStr ''Course not found'')])]),
              (''meta'', JObj [])],
             [ToastError ''Error: Course not found''])
   \<and> is_error [(''error'', JObj [(''status'', JNum ''500'')]), (''meta'', JObj [])]
   \<and> customBaseQuery (Url ''courses/c1'')
        [(''error'', JObj [(''status'', JNum ''500'')]), (''meta'', JObj [])]
     = Some ([(''error'', JObj [(''status'', JNum ''500'')]), (''meta'', JObj [])],
             [ToastError ''Error: 500''])
   \<and> is_error [(''error'', JObj [(''error'', JStr ''offline'')]), (''meta'', JObj [])]
   \<and> customBaseQuery (Url ''courses/c1'')
        [(''error'', JObj [(''error'', JStr ''offline'')]), (''meta'', JObj [])]
     = Some ([(''error'', JObj [(''error'', JStr ''offline'')]), (''meta'', JObj [])],
             [ToastError ''Error: An error occurred''])"
proof -
  have h1: "is_error [(''error'', JObj [(''status'', JNum ''500''),
                                       (''data'', JObj [(''message'', JStr ''Course not found'')])]),
                     (''meta'', JObj [])]"
    by (simp add: is_error_def has_key_def field_def)
  have h2: "is_error [(''error'', JObj [(''status'', JNum ''500'')]), (''meta'', JObj [])]"
    by (simp add: is_error_def has_key_def field_def)
  have h3: "is_error [(''error'', JObj [(''error'', JStr ''offline'')]), (''meta'', JObj [])]"
    by (simp add: is_error_def has_key_def field_def)
  show ?thesis
    using h1 h2 h3
      error_notification_precedence
        [OF h1 refl refl, of "''Course not found''" "Url ''courses/c1''"]
      error_notification_precedence [OF h2 refl refl, of "''500''" "Url ''courses/c1''"]
      error_notification_precedence [OF h3 refl refl, of "[]" "Url ''courses/c1''"]
    by (simp add: member_def field_def)
qed

text \<open>
  The claim as stated fails in two places. Where the server's \<^verbatim>\<open>message\<close> is present
  and empty, as in the error \<^verbatim>\<open>{ status: 500, data: { message: "" } }\<close>, the
  notification carries the status, not the message. Where the chosen message does not
  convert to a string, as in \<^verbatim>\<open>{ status: 500, data: { message: [{ toString: 1 }] } }\<close>,
  no notification is emitted.
\<close>

theorem empty_message_falls_to_status:
  "is_error [(''error'', JObj [(''status'', JNum ''500''), (''data'', JObj [(''message'', JStr '''')])])]
   \<and> has_key ''message'' [(''message'', JStr '''')]
   \<and> customBaseQuery (Url ''courses/c1'')
        [(''error'', JObj [(''status'', JNum ''500''), (''data'', JObj [(''message'', JStr '''')])])]
     = Some ([(''error'', JObj [(''status'', JNum ''500''), (''data'', JObj [(''message'', JStr '''')])])],
             [ToastError ''Error: 500''])
   \<and> js_to_string (JStr '''') = Some ''''
   \<and> ''Error: 500'' \<noteq> ''Error: '' @ ''''
   \<and> is_error [(''error'', JObj [(''status'', JNum ''500''),
        (''data'', JObj [(''message'', JArr [JObj [(''toString'', JNum ''1'')]])])])]
   \<and> customBaseQuery (Url ''courses/c1'')
        [(''error'', JObj [(''status'', JNum ''500''),
          (''data'', JObj [(''message'', JArr [JObj [(''toString'', JNum ''1'')]])])])]
     = None"
  by (simp add: customBaseQuery_def handle_error_def is_error_def has_key_def field_def
      js_coalesce_def js_or_def opt_toString_def)

section \<open>The success path\<close>

text \<open>
  Claim C1. For a successful transport result whose payload has a nested \<^verbatim>\<open>data\<close>
  field, the middleware delivers that nested value (one level of unwrap), and a payload
  without a nested \<^verbatim>\<open>data\<close> field is delivered unchanged. The source unwraps under
  the guard \<^verbatim>\<open>result.data && result.data.data\<close>: the nested value is delivered when it
  is truthy, and in every other case (no nested field, or a nested \<^verbatim>\<open>null\<close>,
  \<^verbatim>\<open>false\<close>, \<^verbatim>\<open>0\<close> or empty string) the result is returned as it came. A payload
  without the field reads \<^verbatim>\<open>undefined\<close> there, which is the second case.
\<close>

theorem success_payload_unwrapped_when_truthy:
  assumes "\<not> is_error result" and "has_key ''data'' result"
    and "payload = field result ''data''" and "nested = member payload ''data''"
  shows "\<exists>r ts. customBaseQuery args result = Some (r, ts) \<and>
           (truthy nested \<longrightarrow> field r ''data'' = nested) \<and>
           (\<not> truthy nested \<longrightarrow> r = result)"
  using assms by (simp add: customBaseQuery_success field_spread_same)

theorem success_payload_unwrapped_when_truthy_witness:
  "\<not> is_error [(''data'', JObj [(''data'', JObj [(''id'', JStr ''c1''), (''title'', JStr ''X'')])]),
               (''meta'', JObj [])]
   \<and> has_key ''data'' [(''data'', JObj [(''data'', JObj [(''id'', JStr ''c1''), (''title'', JStr ''X'')])]),
               (''meta'', JObj [])]
   \<and> (\<exists>r ts. customBaseQuery (query getCourse ''c1'')
          [(''data'', JObj [(''data'', JObj [(''id'', JStr ''c1''), (''title'', JStr ''X'')])]),
           (''meta'', JObj [])] = Some (r, ts)
        \<and> field r ''data'' = JObj [(''id'', JStr ''c1''), (''title'', JStr ''X'')])"
proof -
  have h1: "\<not> is_error [(''data'', JObj [(''data'', JObj [(''id'', JStr ''c1''), (''title'', JStr ''X'')])]),
               (''meta'', JObj [])]"
    by (simp add: is_error_def has_key_def)
  have h2: "has_key ''data'' [(''data'', JObj [(''data'', JObj [(''id'', JStr ''c1''), (''title'', JStr ''X'')])]),
               (''meta'', JObj [])]"
    by (simp add: has_key_def)
  show ?thesis
    using h1 h2 success_payload_unwrapped_when_truthy [OF h1 h2 refl refl, of "query getCourse ''c1''"]
    by (simp add: member_def field_def)
qed

text \<open>
  The claim as stated fails where the nested \<^verbatim>\<open>data\<close> field is present and falsy: for
  the payload \<^verbatim>\<open>{ data: 0 }\<close> the wrapper is delivered, not the nested \<^verbatim>\<open>0\<close>.
\<close>

theorem falsy_nested_data_not_unwrapped:
  "\<not> is_error [(''data'', JObj [(''data'', JNum ''0'')]), (''meta'', JObj [])]
   \<and> has_key ''data'' [(''data'', JNum ''0'')]
   \<and> field [(''data'', JNum ''0'')] ''data'' = JNum ''0''
   \<and> customBaseQuery (Url ''courses/c1'') [(''data'', JObj [(''data'', JNum ''0'')]), (''meta'', JObj [])]
     = Some ([(''data'', JObj [(''data'', JNum ''0'')]), (''meta'', JObj [])], [])
   \<and> field [(''data'', JObj [(''data'', JNum ''0'')]), (''meta'', JObj [])] ''data'' \<noteq> JNum ''0''"
  by (simp add: customBaseQuery_def success_toasts_def normalize_def is_error_def has_key_def
      field_def)

text \<open>
  Claim C4. For a successful result of a call whose descriptor declares a method other
  than GET, a payload carrying a \<^verbatim>\<open>message\<close> gives exactly one success notification
  with that message, and a read never gives one. The source tests the method and the
  message for truthiness: a success notification carrying the payload's message is
  emitted exactly when the result has a payload, the descriptor's method is a non-empty
  string other than \<^verbatim>\<open>GET\<close> and the message is truthy (present and not empty); in every
  other case, so for a bare URL, a descriptor without a method and the method
  \<^verbatim>\<open>GET\<close>, none is emitted, whatever the payload carries.
\<close>

theorem success_notification_rule:
  assumes "\<not> is_error result"
    and "m = member (field result ''data'') ''message''"
  shows "\<exists>r. customBaseQuery args result =
           Some (r, if has_key ''data'' result \<and> truthy (args_method args)
                       \<and> args_method args \<noteq> JStr ''GET'' \<and> truthy m
                    then [ToastSuccess m] else [])"
  using assms by (simp add: customBaseQuery_success)

theorem success_notification_rule_witness:
  "\<not> is_error [(''data'', JObj [(''message'', JStr ''deleted'')]), (''meta'', JObj [])]
   \<and> (\<exists>r. customBaseQuery (query deleteCourse ''c1'')
          [(''data'', JObj [(''message'', JStr ''deleted'')]), (''meta'', JObj [])]
        = Some (r, [ToastSuccess (JStr ''deleted'')]))
   \<and> (\<exists>r. customBaseQuery (query getCourse ''c1'')
          [(''data'', JObj [(''message'', JStr ''deleted'')]), (''meta'', JObj [])]
        = Some (r, []))"
proof -
  have h: "\<not> is_error [(''data'', JObj [(''message'', JStr ''deleted'')]), (''meta'', JObj [])]"
    by (simp add: is_error_def has_key_def)
  show ?thesis
    using h success_notification_rule [OF h refl, of "query deleteCourse ''c1''"]
      success_notification_rule [OF h refl, of "query getCourse ''c1''"]
    by (simp add: deleteCourse_def getCourse_def has_key_def field_def member_def)
qed

text \<open>
  The claim as stated fails where the payload's \<^verbatim>\<open>message\<close> is present and empty: a
  POST answered with \<^verbatim>\<open>{ message: "" }\<close> emits no notification.
\<close>

theorem empty_message_no_success_notification:
  "\<not> is_error [(''data'', JObj [(''message'', JStr '''')]), (''meta'', JObj [])]
   \<and> has_key ''message'' [(''message'', JStr '''')]
   \<and> args_method (Fetch \<lparr>url = ''courses'', method = Some ''POST'', body = None, params = None\<rparr>)
       = JStr ''POST''
   \<and> customBaseQuery
        (Fetch \<lparr>url = ''courses'', method = Some ''POST'', body = None, params = None\<rparr>)
        [(''data'', JObj [(''message'', JStr '''')]), (''meta'', JObj [])]
     = Some ([(''data'', JObj [(''message'', JStr '''')]), (''meta'', JObj [])], [])"
  by (simp add: customBaseQuery_def success_toasts_def normalize_def is_error_def has_key_def
      field_def opt_read_def)

text \<open>
  Claim C10. When the middleware unwraps a success envelope, every field of the transport
  result other than \<^verbatim>\<open>data\<close> (the \<^verbatim>\<open>meta\<close> field, for one) is left unchanged in the
  returned result: the result keeps its properties in their order, \<^verbatim>\<open>data\<close> holds the
  nested value, and every other property holds what it held.
\<close>

theorem unwrap_keeps_other_fields:
  assumes "\<not> is_error result" and "has_key ''data'' result"
    and "nested = member (field result ''data'') ''data''" and "truthy nested"
  shows "\<exists>r ts. customBaseQuery args result = Some (r, ts) \<and>
           map_of r ''data'' = Some nested \<and>
           map fst r = map fst result \<and>
           (\<forall>k. k \<noteq> ''data'' \<longrightarrow> map_of r k = map_of result k)"
  using assms
  by (simp add: customBaseQuery_success keys_spread_present map_of_spread_other)
     (simp add: spread_with_def update_conv')

theorem unwrap_keeps_other_fields_witness:
  "\<not> is_error [(''data'', JObj [(''message'', JStr ''ok''), (''data'', JObj [(''id'', JStr ''c1'')])]),
               (''meta'', JObj [(''request'', JStr ''GET courses/c1'')])]
   \<and> has_key ''data'' [(''data'', JObj [(''message'', JStr ''ok''), (''data'', JObj [(''id'', JStr ''c1'')])]),
               (''meta'', JObj [(''request'', JStr ''GET courses/c1'')])]
   \<and> truthy (JObj [(''id'', JStr ''c1'')])
   \<and> (\<exists>r ts. customBaseQuery (Url ''courses/c1'')
          [(''data'', JObj [(''message'', JStr ''ok''), (''data'', JObj [(''id'', JStr ''c1'')])]),
           (''meta'', JObj [(''request'', JStr ''GET courses/c1'')])] = Some (r, ts)
        \<and> map_of r ''data'' = Some (JObj [(''id'', JStr ''c1'')])
        \<and> map fst r = [''data'', ''meta'']
        \<and> map_of r ''meta'' = Some (JObj [(''request'', JStr ''GET courses/c1'')]))"
proof -
  let ?R = "[(''data'', JObj [(''message'', JStr ''ok''), (''data'', JObj [(''id'', JStr ''c1'')])]),
               (''meta'', JObj [(''request'', JStr ''GET courses/c1'')])]"
  have h1: "\<not> is_error ?R" by (simp add: is_error_def has_key_def)
  have h2: "has_key ''data'' ?R" by (simp add: has_key_def)
  have h3: "JObj [(''id'', JStr ''c1'')] = member (field ?R ''data'') ''data''"
    by (simp add: member_def field_def)
  have h4: "truthy (JObj [(''id'', JStr ''c1'')])" by simp
  from unwrap_keeps_other_fields [OF h1 h2 h3 h4, of "Url ''courses/c1''"]
  obtain r ts where "customBaseQuery (Url ''courses/c1'') ?R = Some (r, ts)"
    and "map_of r ''data'' = Some (JObj [(''id'', JStr ''c1'')])"
    and "map fst r = map fst ?R"
    and "\<forall>k. k \<noteq> ''data'' \<longrightarrow> map_of r k = map_of ?R k"
    by blast
  then show ?thesis using h1 h2 by auto
qed

section \<open>The base URL and the catalog of operations\<close>

text \<open>
  Claim C8. The base URL is the environment's value when it is set; otherwise, in a
  browser, the page's protocol and host name with port 8001; otherwise the literal
  \<^verbatim>\<open>http://localhost:8001\<close>.
\<close>

theorem API_BASE_URL_fallback_chain:
  "API_BASE_URL (Some v) window = v
   \<and> API_BASE_URL None (Some loc) = protocol loc @ ''//'' @ hostname loc @ '':8001''
   \<and> API_BASE_URL None None = ''http://localhost:8001''"
  by (simp add: API_BASE_URL_def)

theorem API_BASE_URL_fallback_chain_witness:
  "API_BASE_URL (Some ''https://api.example.com'')
      (Some \<lparr>protocol = ''https:'', hostname = ''app.example.com'', port = ''3000''\<rparr>)
     = ''https://api.example.com''
   \<and> API_BASE_URL None (Some \<lparr>protocol = ''https:'', hostname = ''app.example.com'', port = ''3000''\<rparr>)
     = ''https://app.example.com:8001''
   \<and> API_BASE_URL None None = ''http://localhost:8001''"
  using API_BASE_URL_fallback_chain [of "''https://api.example.com''"
      "Some \<lparr>protocol = ''https:'', hostname = ''app.example.com'', port = ''3000''\<rparr>"
      "\<lparr>protocol = ''https:'', hostname = ''app.example.com'', port = ''3000''\<rparr>"]
  by simp



text \<open>
  The payment intent is the one operation whose request is built with a leading slash,
  which the transport drops; the twelve others are built with the catalog's path as it
  is.
\<close>

lemma payment_intent_descriptor_url:
  "request_url (query createStripePaymentIntent amount) = ''/transactions/stripe/payment-intent''"
  by (simp add: createStripePaymentIntent_def)

section \<open>The optimistic update\<close>

text \<open>
  Writing to an object the properties of its own copy with one property replaced gives
  that copy: every property but the replaced one is written with the value it has.
\<close>

lemma update_same: "map_of t k = Some v \<Longrightarrow> AList.update k v t = t"
  by (induction t) auto

lemma assign_fixed:
  "\<forall>(k, v) \<in> set s. map_of u k = Some v \<Longrightarrow> foldl (\<lambda>t (k, v). AList.update k v t) u s = u"
  by (induction s) (auto simp: update_same)

lemma assign_reaches:
  assumes "distinct (map fst u)" and "u = AList.update k x d"
  shows "set s \<subseteq> set u \<Longrightarrow> (k, x) \<in> set s \<Longrightarrow> foldl (\<lambda>t (k, v). AList.update k v t) d s = u"
proof (induction s)
  case Nil
  then show ?case by simp
next
  case (Cons p s)
  obtain k' v' where p: "p = (k', v')" by (cases p)
  from Cons.prems p have in_u: "(k', v') \<in> set u" by simp
  with assms(1) have mu: "map_of u k' = Some v'" by simp
  have fixed: "foldl (\<lambda>t (k, v). AList.update k v t) u s = u"
    using Cons.prems(1) assms(1) by (intro assign_fixed) auto
  show ?case
  proof (cases "k' = k")
    case True
    with mu assms(2) have "v' = x" by (simp add: update_conv')
    with True p fixed assms(2) show ?thesis by simp
  next
    case False
    with mu assms(2) have "map_of d k' = Some v'" by (simp add: update_conv')
    then have "AList.update k' v' d = d" by (rule update_same)
    moreover from False p Cons.prems(2) have "(k, x) \<in> set s" by auto
    ultimately show ?thesis using Cons.IH Cons.prems(1) p by simp
  qed
qed

lemma progress_recipe_eq:
  assumes "distinct (map fst draft)"
  shows "progress_recipe pd draft = AList.update ''sections'' (field pd ''sections'') draft"
proof -
  let ?u = "AList.update ''sections'' (field pd ''sections'') draft"
  have d: "distinct (map fst ?u)" using assms by (simp add: distinct_update)
  have "map_of ?u ''sections'' = Some (field pd ''sections'')" by (simp add: update_conv')
  then have m: "(''sections'', field pd ''sections'') \<in> set ?u" by (rule map_of_SomeD)
  show ?thesis
    unfolding progress_recipe_def object_assign_def spread_with_def
    by (rule assign_reaches [OF d refl _ m]) simp
qed

text \<open>
  Claim C3. For a cached \<^verbatim>\<open>getUserCourseProgress\<close> entry with sections \<open>S0\<close>, the
  update with sections \<open>S1\<close> makes the entry read \<open>S1\<close> as soon as the mutation starts,
  before the request resolves (the entry is the old one with \<^verbatim>\<open>sections\<close> replaced); if
  the request fails the cache is the cache it was, so the entry reads \<open>S0\<close> again; if it
  succeeds the patched cache is kept.
\<close>

theorem optimistic_update_round_trip:
  assumes "c (progress_key userId courseId) = Some entry0"
    and "distinct (map fst entry0)"
    and "field entry0 ''sections'' = S0"
    and "field progressData ''sections'' = S1"
    and "onQueryStarted_patch (userId, courseId, progressData) c = (c1, patchResult)"
  shows "(\<exists>entry1. c1 (progress_key userId courseId) = Some entry1
            \<and> field entry1 ''sections'' = S1
            \<and> entry1 = AList.update ''sections'' S1 entry0)
         \<and> onQueryStarted_settle Rejected patchResult c1 = c
         \<and> (\<exists>entry2. onQueryStarted (userId, courseId, progressData) Rejected c
                        (progress_key userId courseId) = Some entry2
              \<and> field entry2 ''sections'' = S0)
         \<and> onQueryStarted_settle Fulfilled patchResult c1 = c1
         \<and> onQueryStarted (userId, courseId, progressData) Fulfilled c = c1"
proof -
  let ?k = "progress_key userId courseId"
  have r: "progress_recipe progressData entry0 = AList.update ''sections'' S1 entry0"
    using assms(2,4) by (simp add: progress_recipe_eq)
  from assms(1,5) have c1: "c1 = c(?k \<mapsto> AList.update ''sections'' S1 entry0)"
    and hp: "patchResult = Some (?k, entry0)"
    by (simp_all add: onQueryStarted_patch_def updateQueryData_def progress_key_def r)
  have restored: "c1(?k \<mapsto> entry0) = c"
    using assms(1) by (simp add: c1 fun_upd_idem)
  have rej: "onQueryStarted_settle Rejected patchResult c1 = c"
    by (simp add: onQueryStarted_settle_def undo_def hp restored)
  have ful: "onQueryStarted_settle Fulfilled patchResult c1 = c1"
    by (simp add: onQueryStarted_settle_def)
  have reads: "field (AList.update ''sections'' S1 entry0) ''sections'' = S1"
    by (simp add: field_def update_conv')
  show ?thesis
    using assms(1,3,5) rej ful reads
    by (simp add: onQueryStarted_def c1)
qed

theorem optimistic_update_round_trip_witness:
  "[progress_key ''u1'' ''c1'' \<mapsto> [(''courseId'', JStr ''c1''), (''sections'', JArr [])]]
      (progress_key ''u1'' ''c1'')
     = Some [(''courseId'', JStr ''c1''), (''sections'', JArr [])]
   \<and> distinct (map fst [(''courseId'', JStr ''c1''), (''sections'', JArr [])])
   \<and> onQueryStarted_patch (''u1'', ''c1'', [(''sections'', JArr [JStr ''s1''])])
        [progress_key ''u1'' ''c1'' \<mapsto> [(''courseId'', JStr ''c1''), (''sections'', JArr [])]]
     = ([progress_key ''u1'' ''c1'' \<mapsto> [(''courseId'', JStr ''c1''), (''sections'', JArr [JStr ''s1''])]],
        Some (progress_key ''u1'' ''c1'', [(''courseId'', JStr ''c1''), (''sections'', JArr [])]))
   \<and> onQueryStarted_settle Rejected
        (Some (progress_key ''u1'' ''c1'', [(''courseId'', JStr ''c1''), (''sections'', JArr [])]))
        [progress_key ''u1'' ''c1'' \<mapsto> [(''courseId'', JStr ''c1''), (''sections'', JArr [JStr ''s1''])]]
     = [progress_key ''u1'' ''c1'' \<mapsto> [(''courseId'', JStr ''c1''), (''sections'', JArr [])]]
   \<and> onQueryStarted (''u1'', ''c1'', [(''sections'', JArr [JStr ''s1''])]) Fulfilled
        [progress_key ''u1'' ''c1'' \<mapsto> [(''courseId'', JStr ''c1''), (''sections'', JArr [])]]
     = [progress_key ''u1'' ''c1'' \<mapsto> [(''courseId'', JStr ''c1''), (''sections'', JArr [JStr ''s1''])]]"
proof -
  let ?k = "progress_key ''u1'' ''c1''"
  let ?e0 = "[(''courseId'', JStr ''c1''), (''sections'', JArr [])]"
  let ?e1 = "[(''courseId'', JStr ''c1''), (''sections'', JArr [JStr ''s1''])]"
  let ?pd = "[(''sections'', JArr [JStr ''s1''])]"
  have h1: "[?k \<mapsto> ?e0] ?k = Some ?e0" by simp
  have h2: "distinct (map fst ?e0)" by simp
  have h3: "field ?e0 ''sections'' = JArr []" by (simp add: field_def)
  have h4: "field ?pd ''sections'' = JArr [JStr ''s1'']" by (simp add: field_def)
  have h5: "onQueryStarted_patch (''u1'', ''c1'', ?pd) [?k \<mapsto> ?e0]
              = ([?k \<mapsto> ?e1], Some (?k, ?e0))"
    by (simp add: onQueryStarted_patch_def updateQueryData_def progress_key_def
        progress_recipe_def object_assign_def spread_with_def field_def)
  show ?thesis
    using h1 h2 h5 optimistic_update_round_trip [OF h1 h2 h3 h4 h5] by simp
qed

text \<open>
  Claim C7. With no cache entry for the key of \<^verbatim>\<open>getUserCourseProgress\<close> when the
  update is invoked, the optimistic patch is a no-op: the patch leaves the cache as it is
  and creates no entry, and so does the whole of \<^verbatim>\<open>onQueryStarted\<close> whether the request
  succeeds or fails. What remains is the tag the mutation invalidates.
\<close>

theorem patch_without_entry_is_noop:
  assumes "c (progress_key userId courseId) = None"
  shows "onQueryStarted_patch (userId, courseId, progressData) c = (c, None)
         \<and> onQueryStarted (userId, courseId, progressData) outcome c = c
         \<and> invalidatesTags updateUserCourseProgress (userId, courseId, progressData)
             = [Tag ''UserCourseProgress'']"
proof -
  from assms
  have p: "onQueryStarted_patch (userId, courseId, progressData) c = (c, None)"
    by (simp add: onQueryStarted_patch_def updateQueryData_def progress_key_def)
  have "onQueryStarted_settle outcome None c = c"
    by (cases outcome) (simp_all add: onQueryStarted_settle_def undo_def)
  with p show ?thesis
    by (simp add: onQueryStarted_def updateUserCourseProgress_def)
qed

theorem patch_without_entry_is_noop_witness:
  "(Map.empty :: cache) (progress_key ''u1'' ''c1'') = None
   \<and> onQueryStarted_patch (''u1'', ''c1'', [(''sections'', JArr [JStr ''s1''])]) Map.empty
       = (Map.empty, None)
   \<and> onQueryStarted (''u1'', ''c1'', [(''sections'', JArr [JStr ''s1''])]) Rejected Map.empty
       = Map.empty
   \<and> onQueryStarted (''u1'', ''c1'', [(''sections'', JArr [JStr ''s1''])]) Fulfilled Map.empty
       = Map.empty"
proof -
  have h: "(Map.empty :: cache) (progress_key ''u1'' ''c1'') = None" by simp
  show ?thesis
    using h
      patch_without_entry_is_noop
        [of Map.empty "''u1''" "''c1''" "[(''sections'', JArr [JStr ''s1''])]" Rejected, OF h]
      patch_without_entry_is_noop
        [of Map.empty "''u1''" "''c1''" "[(''sections'', JArr [JStr ''s1''])]" Fulfilled, OF h]
    by simp
qed

end
